theory Spec2Isabelle
  imports Main
begin

section \<open>The storage adapter and the world it acts on\<close>

text \<open>
  Go's \<open>error\<close> values. \<open>ErrNoRows\<close> is \<open>pgadapter.ErrNoRows\<close>, the adapter's
  distinguished "no rows" value; every other error carries its message.
\<close>

datatype error = ErrNoRows | Err string

type_synonym bytes = string

text \<open>The positional arguments (\<open>...interface{}\<close>) the stores hand to the adapter.\<close>

datatype arg = StringArg string | BytesArg bytes | IntArg int

text \<open>
  \<open>pgadapter.Adapter\<close> is an interface with two methods. An implementation is a pair
  of functions over its own state \<open>'db\<close>; \<open>SelectOne\<close> either fails or fills the
  destination record of type \<open>'row\<close>.
\<close>

record ('db, 'row) adapter =
  Exec :: "string \<Rightarrow> arg list \<Rightarrow> 'db \<Rightarrow> error option \<times> 'db"
  SelectOne :: "string \<Rightarrow> arg list \<Rightarrow> 'db \<Rightarrow> (error + 'row) \<times> 'db"

text \<open>
  \<open>queryCall\<close> is the statement and arguments of one call. The world keeps the history
  of all calls made through the adapter interface, whatever the implementation behind it.
\<close>

type_synonym queryCall = "string \<times> arg list"

datatype adapterCall = ExecCall string "arg list" | SelectOneCall string "arg list"

text \<open>
  A logger is either the standard one writing to stderr with a prefix, or a sink supplied
  by the caller. A \<open>Printf\<close> on a logger leaves an entry in the world.
\<close>

datatype Logger = StderrLogger string | SinkLogger nat

record 'db world =
  db :: 'db
  calls :: "adapterCall list"
  logged :: "(Logger \<times> string \<times> error list) list"

definition adapter_Exec ::
  "('db, 'row) adapter \<Rightarrow> string \<Rightarrow> arg list \<Rightarrow> 'db world \<Rightarrow> error option \<times> 'db world" where
  "adapter_Exec a q args w =
     (case Exec a q args (db w) of
        (e, d) \<Rightarrow> (e, w\<lparr>db := d, calls := calls w @ [ExecCall q args]\<rparr>))"

definition adapter_SelectOne ::
  "('db, 'row) adapter \<Rightarrow> string \<Rightarrow> arg list \<Rightarrow> 'db world \<Rightarrow> (error + 'row) \<times> 'db world" where
  "adapter_SelectOne a q args w =
     (case SelectOne a q args (db w) of
        (r, d) \<Rightarrow> (r, w\<lparr>db := d, calls := calls w @ [SelectOneCall q args]\<rparr>))"

definition Printf :: "Logger \<Rightarrow> string \<Rightarrow> error list \<Rightarrow> 'db world \<Rightarrow> 'db world" where
  "Printf l format v w = w\<lparr>logged := logged w @ [(l, format, v)]\<rparr>"

section \<open>Client payloads and their serialization\<close>

text \<open>
  \<open>models.Client\<close> behind the \<open>oauth2.ClientInfo\<close> interface; the fields are named
  after the interface's getters.
\<close>

record Client =
  GetID :: string
  GetSecret :: string
  GetDomain :: string
  GetUserID :: string

definition zeroClient :: Client where
  "zeroClient = \<lparr>GetID = [], GetSecret = [], GetDomain = [], GetUserID = []\<rparr>"

text \<open>
  The JSON library is a parameter: \<open>Marshal\<close> fails or yields bytes, \<open>Unmarshal\<close>
  yields the record it filled (starting from the zero value) and its error.
\<close>

record 'a jsoniter =
  Marshal :: "'a \<Rightarrow> error + bytes"
  Unmarshal :: "bytes \<Rightarrow> 'a \<times> error option"

section \<open>The client store\<close>

record ('db, 'row) ClientStore =
  adapter :: "('db, 'row) adapter"
  tableName :: string
  logger :: Logger
  initTableDisabled :: bool

record ClientStoreItem =
  ID :: string
  Secret :: string
  Domain :: string
  Data :: bytes

definition zeroItem :: ClientStoreItem where
  "zeroItem = \<lparr>ID = [], Secret = [], Domain = [], Data = []\<rparr>"

type_synonym 'db client_store = "('db, ClientStoreItem) ClientStore"

definition nl :: string where
  "nl = [CHR 0x0A]"

definition clientCreateTableSQL :: "string \<Rightarrow> string" where
  "clientCreateTableSQL t =
     nl @ ''CREATE TABLE IF NOT EXISTS '' @ t @ '' ('' @ nl @
     ''  id     TEXT  NOT NULL,'' @ nl @
     ''  secret TEXT  NOT NULL,'' @ nl @
     ''  domain TEXT  NOT NULL,'' @ nl @
     ''  data   JSONB NOT NULL,'' @ nl @
     ''  CONSTRAINT '' @ t @ ''_pkey PRIMARY KEY (id)'' @ nl @
     '');'' @ nl"

definition clientSelectSQL :: "string \<Rightarrow> string" where
  "clientSelectSQL t = ''SELECT * FROM '' @ t @ '' WHERE id = $1''"

definition clientInsertSQL :: "string \<Rightarrow> string" where
  "clientInsertSQL t =
     ''INSERT INTO '' @ t @ '' (id, secret, domain, data) VALUES ($1, $2, $3, $4)''"

definition initTable :: "'db client_store \<Rightarrow> 'db world \<Rightarrow> error option \<times> 'db world" where
  "initTable s w = adapter_Exec (adapter s) (clientCreateTableSQL (tableName s)) [] w"

definition defaultClientStore :: "('db, ClientStoreItem) adapter \<Rightarrow> 'db client_store" where
  "defaultClientStore a =
     \<lparr>adapter = a, tableName = ''oauth2_clients'',
      logger = StderrLogger ''[OAUTH2-PG-ERROR]'', initTableDisabled = False\<rparr>"

text \<open>
  \<open>ClientStoreOption\<close> is \<open>func(*ClientStore)\<close>; the options are applied in order.
\<close>

type_synonym 'db ClientStoreOption = "'db client_store \<Rightarrow> 'db client_store"

definition applyClientOptions ::
  "'db ClientStoreOption list \<Rightarrow> 'db client_store \<Rightarrow> 'db client_store" where
  "applyClientOptions options store = fold (\<lambda>opt s. opt s) options store"

definition NewClientStore ::
  "('db, ClientStoreItem) adapter \<Rightarrow> 'db ClientStoreOption list \<Rightarrow> 'db world
     \<Rightarrow> ('db client_store \<times> error option) \<times> 'db world" where
  "NewClientStore a options w =
     (let store = applyClientOptions options (defaultClientStore a);
          (err, w') = (if \<not> initTableDisabled store then initTable store w else (None, w))
      in if err \<noteq> None then ((store, err), w') else ((store, err), w'))"

definition toClientInfo :: "Client jsoniter \<Rightarrow> bytes \<Rightarrow> Client option \<times> error option" where
  "toClientInfo json data = (case Unmarshal json data of (cm, err) \<Rightarrow> (Some cm, err))"

definition GetByID ::
  "Client jsoniter \<Rightarrow> 'db client_store \<Rightarrow> string \<Rightarrow> 'db world
     \<Rightarrow> (Client option \<times> error option) \<times> 'db world" where
  "GetByID json s key w =
     (if key = [] then ((None, None), w)
      else case adapter_SelectOne (adapter s) (clientSelectSQL (tableName s)) [StringArg key] w of
             (Inl err, w') \<Rightarrow> ((None, Some err), w')
           | (Inr item, w') \<Rightarrow> (toClientInfo json (Data item), w'))"

definition Create ::
  "Client jsoniter \<Rightarrow> 'db client_store \<Rightarrow> Client \<Rightarrow> 'db world \<Rightarrow> error option \<times> 'db world" where
  "Create json s info w =
     (case Marshal json info of
        Inl err \<Rightarrow> (Some err, w)
      | Inr data \<Rightarrow>
          adapter_Exec (adapter s) (clientInsertSQL (tableName s))
            [StringArg (GetID info), StringArg (GetSecret info), StringArg (GetDomain info),
             BytesArg data] w)"

text \<open>
  Modelled from the spec: the option constructors of the client store (table name,
  disable table init, logger), which the test file calls and \<open>src/\<close> does not hold.
\<close>

definition WithClientStoreTableName :: "string \<Rightarrow> 'db ClientStoreOption" where
  "WithClientStoreTableName t s = s\<lparr>tableName := t\<rparr>"

definition WithClientStoreLogger :: "Logger \<Rightarrow> 'db ClientStoreOption" where
  "WithClientStoreLogger l s = s\<lparr>logger := l\<rparr>"

definition WithClientStoreInitTableDisabled :: "'db ClientStoreOption" where
  "WithClientStoreInitTableDisabled s = s\<lparr>initTableDisabled := True\<rparr>"

section \<open>The token store\<close>

text \<open>
  Modelled from the spec: the token domain object with the three sub-tokens of the
  data model (value, creation time, expiry window each); \<open>token_store.go\<close> is not under
  \<open>src/\<close>. Times and durations are integers.
\<close>

record Token =
  GetCode :: string
  GetCodeCreateAt :: int
  GetCodeExpiresIn :: int
  GetAccess :: string
  GetAccessCreateAt :: int
  GetAccessExpiresIn :: int
  GetRefresh :: string
  GetRefreshCreateAt :: int
  GetRefreshExpiresIn :: int

text \<open>
  Modelled from the spec: one row of the token table (data model of the spec:
  surrogate key, three sub-token column groups, serialized payload).
\<close>

record TokenStoreItem =
  TokenID :: int
  Code :: string
  CodeCreatedAt :: int
  CodeExpiresIn :: int
  Access :: string
  AccessCreatedAt :: int
  AccessExpiresIn :: int
  Refresh :: string
  RefreshCreatedAt :: int
  RefreshExpiresIn :: int
  TokenData :: bytes

definition zeroTokenItem :: TokenStoreItem where
  "zeroTokenItem =
     \<lparr>TokenID = 0, Code = [], CodeCreatedAt = 0, CodeExpiresIn = 0,
      Access = [], AccessCreatedAt = 0, AccessExpiresIn = 0,
      Refresh = [], RefreshCreatedAt = 0, RefreshExpiresIn = 0, TokenData = []\<rparr>"

text \<open>
  Modelled from the spec: the fixed texts and defaults of the token store, which the
  spec names without spelling them out (statement per operation for a table name,
  default table name, default GC interval, format of the GC error message). They are
  parameters of every token-store operation.
\<close>

record TokenStoreConsts =
  createTableSQL :: "string \<Rightarrow> string"
  insertSQL :: "string \<Rightarrow> string"
  selectByCodeSQL :: "string \<Rightarrow> string"
  selectByAccessSQL :: "string \<Rightarrow> string"
  selectByRefreshSQL :: "string \<Rightarrow> string"
  deleteByCodeSQL :: "string \<Rightarrow> string"
  deleteByAccessSQL :: "string \<Rightarrow> string"
  deleteByRefreshSQL :: "string \<Rightarrow> string"
  deleteExpiredSQL :: "string \<Rightarrow> string"
  defaultTableName :: string
  defaultGCInterval :: nat
  gcErrorFormat :: string

text \<open>Modelled from the spec: the states of the GC scheduler (section 4.2).\<close>

datatype gcState = Stopped | Running

text \<open>
  Modelled from the spec: the token store object with its construction-time options
  (section 4.1) and the state of its scheduler.
\<close>

record 'db TokenStore =
  tsAdapter :: "('db, TokenStoreItem) adapter"
  tsTableName :: string
  tsLogger :: Logger
  gcDisabled :: bool
  gcInterval :: nat
  tsInitTableDisabled :: bool
  scheduler :: gcState

type_synonym 'db TokenStoreOption = "'db TokenStore \<Rightarrow> 'db TokenStore"

text \<open>Modelled from the spec: the option constructors the test file calls.\<close>

definition WithTokenStoreTableName :: "string \<Rightarrow> 'db TokenStoreOption" where
  "WithTokenStoreTableName t s = s\<lparr>tsTableName := t\<rparr>"

definition WithTokenStoreLogger :: "Logger \<Rightarrow> 'db TokenStoreOption" where
  "WithTokenStoreLogger l s = s\<lparr>tsLogger := l\<rparr>"

definition WithTokenStoreInitTableDisabled :: "'db TokenStoreOption" where
  "WithTokenStoreInitTableDisabled s = s\<lparr>tsInitTableDisabled := True\<rparr>"

definition WithTokenStoreGCDisabled :: "'db TokenStoreOption" where
  "WithTokenStoreGCDisabled s = s\<lparr>gcDisabled := True\<rparr>"

definition WithTokenStoreGCInterval :: "nat \<Rightarrow> 'db TokenStoreOption" where
  "WithTokenStoreGCInterval d s = s\<lparr>gcInterval := d\<rparr>"

text \<open>
  Modelled from the spec: construction (section 4.1). Unless disabled, one
  create-table statement; its failure is returned beside the store. Unless GC is
  disabled, the scheduler is started.
\<close>

definition defaultTokenStore ::
  "TokenStoreConsts \<Rightarrow> ('db, TokenStoreItem) adapter \<Rightarrow> 'db TokenStore" where
  "defaultTokenStore k a =
     \<lparr>tsAdapter = a, tsTableName = defaultTableName k,
      tsLogger = StderrLogger ''[OAUTH2-PG-ERROR]'', gcDisabled = False,
      gcInterval = defaultGCInterval k, tsInitTableDisabled = False, scheduler = Stopped\<rparr>"

definition applyTokenOptions ::
  "'db TokenStoreOption list \<Rightarrow> 'db TokenStore \<Rightarrow> 'db TokenStore" where
  "applyTokenOptions options store = fold (\<lambda>opt s. opt s) options store"

definition TokenStore_initTable ::
  "TokenStoreConsts \<Rightarrow> 'db TokenStore \<Rightarrow> 'db world \<Rightarrow> error option \<times> 'db world" where
  "TokenStore_initTable k s w =
     adapter_Exec (tsAdapter s) (createTableSQL k (tsTableName s)) [] w"

definition NewTokenStore ::
  "TokenStoreConsts \<Rightarrow> ('db, TokenStoreItem) adapter \<Rightarrow> 'db TokenStoreOption list
     \<Rightarrow> 'db world \<Rightarrow> ('db TokenStore \<times> error option) \<times> 'db world" where
  "NewTokenStore k a options w =
     (let store = applyTokenOptions options (defaultTokenStore k a);
          (err, w') = (if \<not> tsInitTableDisabled store then TokenStore_initTable k store w
                       else (None, w));
          store' = (if \<not> gcDisabled store then store\<lparr>scheduler := Running\<rparr> else store)
      in ((store', err), w'))"

text \<open>Modelled from the spec: \<open>Close\<close> stops the scheduler and touches nothing else.\<close>

definition TokenStore_Close :: "'db TokenStore \<Rightarrow> 'db TokenStore \<times> error option" where
  "TokenStore_Close s = (s\<lparr>scheduler := Stopped\<rparr>, None)"

text \<open>
  Modelled from the spec: \<open>Create\<close> serializes the token and inserts one row with all
  three sub-token column groups and the payload.
\<close>

definition TokenStore_Create ::
  "TokenStoreConsts \<Rightarrow> Token jsoniter \<Rightarrow> 'db TokenStore \<Rightarrow> Token \<Rightarrow> 'db world
     \<Rightarrow> error option \<times> 'db world" where
  "TokenStore_Create k json s info w =
     (case Marshal json info of
        Inl err \<Rightarrow> (Some err, w)
      | Inr data \<Rightarrow>
          adapter_Exec (tsAdapter s) (insertSQL k (tsTableName s))
            [StringArg (GetCode info), IntArg (GetCodeCreateAt info),
             IntArg (GetCodeExpiresIn info),
             StringArg (GetAccess info), IntArg (GetAccessCreateAt info),
             IntArg (GetAccessExpiresIn info),
             StringArg (GetRefresh info), IntArg (GetRefreshCreateAt info),
             IntArg (GetRefreshExpiresIn info),
             BytesArg data] w)"

text \<open>
  Modelled from the spec: the three removals delete the rows matching the key and
  return what the adapter returns.
\<close>

definition remove ::
  "'db TokenStore \<Rightarrow> string \<Rightarrow> string \<Rightarrow> 'db world \<Rightarrow> error option \<times> 'db world" where
  "remove s q key w = adapter_Exec (tsAdapter s) q [StringArg key] w"

definition RemoveByCode ::
  "TokenStoreConsts \<Rightarrow> 'db TokenStore \<Rightarrow> string \<Rightarrow> 'db world \<Rightarrow> error option \<times> 'db world" where
  "RemoveByCode k s code w = remove s (deleteByCodeSQL k (tsTableName s)) code w"

definition RemoveByAccess ::
  "TokenStoreConsts \<Rightarrow> 'db TokenStore \<Rightarrow> string \<Rightarrow> 'db world \<Rightarrow> error option \<times> 'db world" where
  "RemoveByAccess k s access w = remove s (deleteByAccessSQL k (tsTableName s)) access w"

definition RemoveByRefresh ::
  "TokenStoreConsts \<Rightarrow> 'db TokenStore \<Rightarrow> string \<Rightarrow> 'db world \<Rightarrow> error option \<times> 'db world" where
  "RemoveByRefresh k s refresh w = remove s (deleteByRefreshSQL k (tsTableName s)) refresh w"

text \<open>
  Modelled from the spec: the three lookups. An empty key answers "no result, no
  error" at once; otherwise one row is selected by the key's column and its payload
  deserialized; an adapter error (the no-rows one included) is returned as it is.
\<close>

definition toTokenInfo :: "Token jsoniter \<Rightarrow> bytes \<Rightarrow> Token option \<times> error option" where
  "toTokenInfo json data = (case Unmarshal json data of (tm, err) \<Rightarrow> (Some tm, err))"

definition getBy ::
  "Token jsoniter \<Rightarrow> 'db TokenStore \<Rightarrow> string \<Rightarrow> string \<Rightarrow> 'db world
     \<Rightarrow> (Token option \<times> error option) \<times> 'db world" where
  "getBy json s q key w =
     (if key = [] then ((None, None), w)
      else case adapter_SelectOne (tsAdapter s) q [StringArg key] w of
             (Inl err, w') \<Rightarrow> ((None, Some err), w')
           | (Inr item, w') \<Rightarrow> (toTokenInfo json (TokenData item), w'))"

definition GetByCode ::
  "TokenStoreConsts \<Rightarrow> Token jsoniter \<Rightarrow> 'db TokenStore \<Rightarrow> string \<Rightarrow> 'db world
     \<Rightarrow> (Token option \<times> error option) \<times> 'db world" where
  "GetByCode k json s code w = getBy json s (selectByCodeSQL k (tsTableName s)) code w"

definition GetByAccess ::
  "TokenStoreConsts \<Rightarrow> Token jsoniter \<Rightarrow> 'db TokenStore \<Rightarrow> string \<Rightarrow> 'db world
     \<Rightarrow> (Token option \<times> error option) \<times> 'db world" where
  "GetByAccess k json s access w = getBy json s (selectByAccessSQL k (tsTableName s)) access w"

definition GetByRefresh ::
  "TokenStoreConsts \<Rightarrow> Token jsoniter \<Rightarrow> 'db TokenStore \<Rightarrow> string \<Rightarrow> 'db world
     \<Rightarrow> (Token option \<times> error option) \<times> 'db world" where
  "GetByRefresh k json s refresh w =
     getBy json s (selectByRefreshSQL k (tsTableName s)) refresh w"

text \<open>
  Modelled from the spec: one GC pass (section 4.2) issues the one delete statement for
  expired rows, with no argument since the database's own clock decides; a failure is
  handed to the configured logger with the message format and the error, and nothing
  is returned. The loop runs one pass per tick while the scheduler is running.
\<close>

definition clean :: "TokenStoreConsts \<Rightarrow> 'db TokenStore \<Rightarrow> 'db world \<Rightarrow> 'db world" where
  "clean k s w =
     (case adapter_Exec (tsAdapter s) (deleteExpiredSQL k (tsTableName s)) [] w of
        (None, w') \<Rightarrow> w'
      | (Some err, w') \<Rightarrow> Printf (tsLogger s) (gcErrorFormat k) [err] w')"

fun gc :: "TokenStoreConsts \<Rightarrow> 'db TokenStore \<Rightarrow> nat \<Rightarrow> 'db world \<Rightarrow> 'db world" where
  "gc k s 0 w = w"
| "gc k s (Suc ticks) w = (if scheduler s = Running then gc k s ticks (clean k s w) else w)"

section \<open>Adapters and codecs for concrete runs\<close>

text \<open>
  \<open>mockAdapter\<close> of the test file: it appends every call to its own lists and answers
  through its callbacks, or with \<open>nil\<close> where a callback is absent. A select callback
  receives the destination as the caller initialised it.
\<close>

record mockAdapter =
  execCalls :: "queryCall list"
  selectOneCalls :: "queryCall list"

definition newMockAdapter :: mockAdapter where
  "newMockAdapter = \<lparr>execCalls = [], selectOneCalls = []\<rparr>"

definition mockAdapter_Exec ::
  "(string \<Rightarrow> arg list \<Rightarrow> error option) option \<Rightarrow> string \<Rightarrow> arg list \<Rightarrow> mockAdapter
     \<Rightarrow> error option \<times> mockAdapter" where
  "mockAdapter_Exec execCallback query args a =
     (let a' = a\<lparr>execCalls := execCalls a @ [(query, args)]\<rparr>
      in case execCallback of Some f \<Rightarrow> (f query args, a') | None \<Rightarrow> (None, a'))"

definition mockAdapter_SelectOne ::
  "(string \<Rightarrow> arg list \<Rightarrow> 'row \<Rightarrow> error + 'row) option \<Rightarrow> 'row \<Rightarrow> string \<Rightarrow> arg list
     \<Rightarrow> mockAdapter \<Rightarrow> (error + 'row) \<times> mockAdapter" where
  "mockAdapter_SelectOne selectCallback dst query args a =
     (let a' = a\<lparr>selectOneCalls := selectOneCalls a @ [(query, args)]\<rparr>
      in case selectCallback of Some f \<Rightarrow> (f query args dst, a') | None \<Rightarrow> (Inr dst, a'))"

definition mockAdapterOf ::
  "(string \<Rightarrow> arg list \<Rightarrow> error option) option
     \<Rightarrow> (string \<Rightarrow> arg list \<Rightarrow> 'row \<Rightarrow> error + 'row) option \<Rightarrow> 'row
     \<Rightarrow> (mockAdapter, 'row) adapter" where
  "mockAdapterOf execCallback selectCallback dst =
     \<lparr>Exec = mockAdapter_Exec execCallback,
      SelectOne = mockAdapter_SelectOne selectCallback dst\<rparr>"

definition newWorld :: "'db \<Rightarrow> 'db world" where
  "newWorld d = \<lparr>db = d, calls = [], logged = []\<rparr>"

text \<open>
  A reference adapter for the client table: the table in memory, absent (\<open>None\<close>) until
  the creation statement of \<open>initTable\<close> runs, with the primary key on \<open>id\<close> which that
  statement declares. It understands exactly the three statements the client store
  issues for the table name it is given.
\<close>

type_synonym clientTable = "ClientStoreItem list option"

definition clientTable_Exec ::
  "string \<Rightarrow> string \<Rightarrow> arg list \<Rightarrow> clientTable \<Rightarrow> error option \<times> clientTable" where
  "clientTable_Exec t q args tb =
     (if q = clientCreateTableSQL t then
        (case tb of None \<Rightarrow> (None, Some []) | Some rows \<Rightarrow> (None, Some rows))
      else if q = clientInsertSQL t then
        (case tb of
           None \<Rightarrow> (Some (Err ''relation does not exist''), tb)
         | Some rows \<Rightarrow>
             (case args of
                [StringArg i, StringArg s, StringArg d, BytesArg b] \<Rightarrow>
                  if i \<in> set (map ID rows)
                  then (Some (Err ''duplicate key value violates unique constraint''), tb)
                  else (None, Some (rows @ [\<lparr>ID = i, Secret = s, Domain = d, Data = b\<rparr>]))
              | _ \<Rightarrow> (Some (Err ''wrong arguments''), tb)))
      else (Some (Err ''syntax error''), tb))"

definition clientTable_SelectOne ::
  "string \<Rightarrow> string \<Rightarrow> arg list \<Rightarrow> clientTable
     \<Rightarrow> (error + ClientStoreItem) \<times> clientTable" where
  "clientTable_SelectOne t q args tb =
     (if q = clientSelectSQL t then
        (case tb of
           None \<Rightarrow> (Inl (Err ''relation does not exist''), tb)
         | Some rows \<Rightarrow>
             (case args of
                [StringArg i] \<Rightarrow>
                  (case find (\<lambda>r. ID r = i) rows of
                     None \<Rightarrow> (Inl ErrNoRows, tb)
                   | Some r \<Rightarrow> (Inr r, tb))
              | _ \<Rightarrow> (Inl (Err ''wrong arguments''), tb)))
      else (Inl (Err ''syntax error''), tb))"

definition clientTableAdapter :: "string \<Rightarrow> (clientTable, ClientStoreItem) adapter" where
  "clientTableAdapter t = \<lparr>Exec = clientTable_Exec t, SelectOne = clientTable_SelectOne t\<rparr>"

text \<open>
  A small codec standing in for the JSON library in concrete runs: the four fields of a
  client joined by a separator, refused when a field contains the separator.
\<close>

definition fieldSep :: char where
  "fieldSep = CHR ''|''"

fun splitOn :: "char \<Rightarrow> string \<Rightarrow> string list" where
  "splitOn c [] = [Nil]"
| "splitOn c (x # xs) =
     (if x = c then [] # splitOn c xs
      else case splitOn c xs of y # ys \<Rightarrow> (x # y) # ys | [] \<Rightarrow> [x # Nil])"

definition lineCodec :: "Client jsoniter" where
  "lineCodec =
     \<lparr>Marshal = (\<lambda>c.
        if fieldSep \<in> set (GetID c @ GetSecret c @ GetDomain c @ GetUserID c)
        then Inl (Err ''unsupported value'')
        else Inr (GetID c @ [fieldSep] @ GetSecret c @ [fieldSep] @ GetDomain c @ [fieldSep]
                  @ GetUserID c)),
      Unmarshal = (\<lambda>b.
        case splitOn fieldSep b of
          [i, s, d, u] \<Rightarrow> (\<lparr>GetID = i, GetSecret = s, GetDomain = d, GetUserID = u\<rparr>, None)
        | _ \<Rightarrow> (zeroClient, Some (Err ''invalid payload'')))\<rparr>"

text \<open>
  A reference adapter for the token table: the rows in memory, no uniqueness on any
  sub-token column. It understands the insert, the three keyed selects and the three
  keyed deletes of the given statement texts; the surrogate key is the row count.
\<close>

definition tokenTable_Exec ::
  "TokenStoreConsts \<Rightarrow> string \<Rightarrow> string \<Rightarrow> arg list \<Rightarrow> TokenStoreItem list
     \<Rightarrow> error option \<times> TokenStoreItem list" where
  "tokenTable_Exec k t q args rows =
     (if q = insertSQL k t then
        (case args of
           [StringArg c, IntArg cc, IntArg ce, StringArg a, IntArg ac, IntArg ae,
            StringArg r, IntArg rc, IntArg re, BytesArg b] \<Rightarrow>
             (None, rows @ [\<lparr>TokenID = int (length rows),
                Code = c, CodeCreatedAt = cc, CodeExpiresIn = ce,
                Access = a, AccessCreatedAt = ac, AccessExpiresIn = ae,
                Refresh = r, RefreshCreatedAt = rc, RefreshExpiresIn = re, TokenData = b\<rparr>])
         | _ \<Rightarrow> (Some (Err ''wrong arguments''), rows))
      else if q = deleteByCodeSQL k t then
        (case args of
           [StringArg c] \<Rightarrow> (None, filter (\<lambda>r. Code r \<noteq> c) rows)
         | _ \<Rightarrow> (Some (Err ''wrong arguments''), rows))
      else if q = deleteByAccessSQL k t then
        (case args of
           [StringArg a] \<Rightarrow> (None, filter (\<lambda>r. Access r \<noteq> a) rows)
         | _ \<Rightarrow> (Some (Err ''wrong arguments''), rows))
      else if q = deleteByRefreshSQL k t then
        (case args of
           [StringArg x] \<Rightarrow> (None, filter (\<lambda>r. Refresh r \<noteq> x) rows)
         | _ \<Rightarrow> (Some (Err ''wrong arguments''), rows))
      else (Some (Err ''syntax error''), rows))"

definition selectBy ::
  "(TokenStoreItem \<Rightarrow> string) \<Rightarrow> arg list \<Rightarrow> TokenStoreItem list
     \<Rightarrow> (error + TokenStoreItem) \<times> TokenStoreItem list" where
  "selectBy col args rows =
     (case args of
        [StringArg x] \<Rightarrow>
          (case find (\<lambda>r. col r = x) rows of
             None \<Rightarrow> (Inl ErrNoRows, rows)
           | Some r \<Rightarrow> (Inr r, rows))
      | _ \<Rightarrow> (Inl (Err ''wrong arguments''), rows))"

definition tokenTable_SelectOne ::
  "TokenStoreConsts \<Rightarrow> string \<Rightarrow> string \<Rightarrow> arg list \<Rightarrow> TokenStoreItem list
     \<Rightarrow> (error + TokenStoreItem) \<times> TokenStoreItem list" where
  "tokenTable_SelectOne k t q args rows =
     (if q = selectByCodeSQL k t then selectBy Code args rows
      else if q = selectByAccessSQL k t then selectBy Access args rows
      else if q = selectByRefreshSQL k t then selectBy Refresh args rows
      else (Inl (Err ''syntax error''), rows))"

definition tokenTableAdapter ::
  "TokenStoreConsts \<Rightarrow> string \<Rightarrow> (TokenStoreItem list, TokenStoreItem) adapter" where
  "tokenTableAdapter k t = \<lparr>Exec = tokenTable_Exec k t, SelectOne = tokenTable_SelectOne k t\<rparr>"

text \<open>
  A table is consistent for a codec when the payload of every row deserializes, without
  error, to a token whose code is the row's code column: what every row written by
  \<open>Create\<close> satisfies when the codec inverts what it writes.
\<close>

definition codeConsistent :: "Token jsoniter \<Rightarrow> TokenStoreItem list \<Rightarrow> bool" where
  "codeConsistent json rows =
     list_all (\<lambda>r. snd (Unmarshal json (TokenData r)) = None
                  \<and> GetCode (fst (Unmarshal json (TokenData r))) = Code r) rows"

text \<open>Statement texts and a codec for concrete runs of the token store.\<close>

definition sampleConsts :: TokenStoreConsts where
  "sampleConsts =
     \<lparr>createTableSQL = (\<lambda>t. ''CREATE TABLE IF NOT EXISTS '' @ t),
      insertSQL = (\<lambda>t. ''INSERT INTO '' @ t),
      selectByCodeSQL = (\<lambda>t. ''SELECT * FROM '' @ t @ '' WHERE code = $1''),
      selectByAccessSQL = (\<lambda>t. ''SELECT * FROM '' @ t @ '' WHERE access = $1''),
      selectByRefreshSQL = (\<lambda>t. ''SELECT * FROM '' @ t @ '' WHERE refresh = $1''),
      deleteByCodeSQL = (\<lambda>t. ''DELETE FROM '' @ t @ '' WHERE code = $1''),
      deleteByAccessSQL = (\<lambda>t. ''DELETE FROM '' @ t @ '' WHERE access = $1''),
      deleteByRefreshSQL = (\<lambda>t. ''DELETE FROM '' @ t @ '' WHERE refresh = $1''),
      deleteExpiredSQL = (\<lambda>t. ''DELETE FROM '' @ t @ '' WHERE expired''),
      defaultTableName = ''oauth2_tokens'',
      defaultGCInterval = 600,
      gcErrorFormat = ''gc: %v''\<rparr>"

definition zeroToken :: Token where
  "zeroToken =
     \<lparr>GetCode = [], GetCodeCreateAt = 0, GetCodeExpiresIn = 0,
      GetAccess = [], GetAccessCreateAt = 0, GetAccessExpiresIn = 0,
      GetRefresh = [], GetRefreshCreateAt = 0, GetRefreshExpiresIn = 0\<rparr>"

definition tokenLineCodec :: "Token jsoniter" where
  "tokenLineCodec =
     \<lparr>Marshal = (\<lambda>t.
        if fieldSep \<in> set (GetCode t @ GetAccess t @ GetRefresh t)
        then Inl (Err ''unsupported value'')
        else Inr (GetCode t @ [fieldSep] @ GetAccess t @ [fieldSep] @ GetRefresh t)),
      Unmarshal = (\<lambda>b.
        case splitOn fieldSep b of
          [c, a, r] \<Rightarrow> (zeroToken\<lparr>GetCode := c, GetAccess := a, GetRefresh := r\<rparr>, None)
        | _ \<Rightarrow> (zeroToken, Some (Err ''invalid payload'')))\<rparr>"

text \<open>Values for concrete runs: the client of the end-to-end scenario, stores, callbacks.\<close>

definition sampleClient :: Client where
  "sampleClient = \<lparr>GetID = ''c1'', GetSecret = ''s1'', GetDomain = ''d1'', GetUserID = ''u1''\<rparr>"

definition tableStore :: "string \<Rightarrow> clientTable client_store" where
  "tableStore t =
     applyClientOptions [WithClientStoreTableName t] (defaultClientStore (clientTableAdapter t))"

definition occupiedTable :: clientTable where
  "occupiedTable =
     Some [\<lparr>ID = ''c1'', Secret = ''old'', Domain = ''d0'', Data = ''c1|old|d0|u0''\<rparr>]"

definition execAlwaysFails :: "string \<Rightarrow> arg list \<Rightarrow> error option" where
  "execAlwaysFails query args = Some (Err ''exec failed'')"

definition selectNoRows :: "string \<Rightarrow> arg list \<Rightarrow> 'row \<Rightarrow> error + 'row" where
  "selectNoRows query args dst = Inl ErrNoRows"

definition mockStore :: "mockAdapter client_store" where
  "mockStore = defaultClientStore (mockAdapterOf None (Some selectNoRows) zeroItem)"

definition sampleToken :: Token where
  "sampleToken = zeroToken\<lparr>GetCode := ''code1''\<rparr>"

definition tokenTableStore :: "TokenStoreItem list TokenStore" where
  "tokenTableStore =
     defaultTokenStore sampleConsts (tokenTableAdapter sampleConsts ''oauth2_tokens'')"

definition olderRows :: "TokenStoreItem list" where
  "olderRows =
     [zeroTokenItem\<lparr>Code := ''code1'', Access := ''a0'', TokenData := ''code1|a0|''\<rparr>]"

definition gcStore :: "mockAdapter TokenStore" where
  "gcStore =
     fst (fst (NewTokenStore sampleConsts
       (mockAdapterOf (Some execAlwaysFails) None zeroTokenItem)
       [WithTokenStoreInitTableDisabled, WithTokenStoreLogger (SinkLogger 0)]
       (newWorld newMockAdapter)))"

section \<open>Properties of the client store\<close>

lemma find_append_last:
  "\<forall>y \<in> set xs. \<not> P y \<Longrightarrow> P x \<Longrightarrow> find P (xs @ [x]) = Some x"
  by (induction xs) auto

lemma clientInsert_neq_create: "clientInsertSQL t \<noteq> clientCreateTableSQL t"
  by (simp add: clientInsertSQL_def clientCreateTableSQL_def nl_def)

lemma clientTable_insert_ok:
  assumes "clientTable_Exec t (clientInsertSQL t)
             [StringArg i, StringArg se, StringArg d, BytesArg b] tb = (None, tb')"
  shows "\<exists>rows. tb = Some rows \<and> i \<notin> set (map ID rows)
            \<and> tb' = Some (rows @ [\<lparr>ID = i, Secret = se, Domain = d, Data = b\<rparr>])"
  using assms
  by (auto simp: clientTable_Exec_def clientInsert_neq_create split: option.splits if_splits)

text \<open>
  The creation statement is idempotent on the reference table: it creates the table when
  it is absent and leaves an existing table, rows included, as it is.
\<close>

lemma clientTable_create_idempotent:
  "clientTable_Exec t (clientCreateTableSQL t) [] None = (None, Some [])"
  "clientTable_Exec t (clientCreateTableSQL t) [] (Some rows) = (None, Some rows)"
  by (simp_all add: clientTable_Exec_def)

text \<open>
  Claim C2. An empty key is answered at once: \<open>GetByID\<close> of the client store, and
  \<open>GetByCode\<close>, \<open>GetByAccess\<close>, \<open>GetByRefresh\<close> of the token store, return no
  result and no error and leave the world as it was, so no call reaches the adapter;
  that answer is not the not-found answer, which carries \<open>ErrNoRows\<close>.
\<close>

theorem empty_key_short_circuit:
  "GetByID json s [] w = ((None, None), w)
   \<and> GetByCode k tjson ts [] tw = ((None, None), tw)
   \<and> GetByAccess k tjson ts [] tw = ((None, None), tw)
   \<and> GetByRefresh k tjson ts [] tw = ((None, None), tw)
   \<and> (None :: Client option, None) \<noteq> (None, Some ErrNoRows)
   \<and> (None :: Token option, None) \<noteq> (None, Some ErrNoRows)"
  by (simp add: GetByID_def GetByCode_def GetByAccess_def GetByRefresh_def getBy_def)

theorem empty_key_short_circuit_witness:
  "GetByID lineCodec mockStore [] (newWorld newMockAdapter)
     = ((None, None), newWorld newMockAdapter)
   \<and> calls (snd (GetByID lineCodec mockStore [] (newWorld newMockAdapter))) = []
   \<and> calls (snd (GetByCode sampleConsts tokenLineCodec
        (defaultTokenStore sampleConsts (mockAdapterOf None None zeroTokenItem)) []
        (newWorld newMockAdapter))) = []"
  using empty_key_short_circuit [of lineCodec mockStore "newWorld newMockAdapter"
      sampleConsts tokenLineCodec
      "defaultTokenStore sampleConsts (mockAdapterOf None None zeroTokenItem)"
      "newWorld newMockAdapter"]
  by (simp add: newWorld_def)

text \<open>
  Claim C3. When the table-creation statement that construction issues fails in the
  adapter, \<open>NewClientStore\<close> returns the configured store together with that error,
  and so does \<open>NewTokenStore\<close>: the store is never dropped on the error path.
\<close>

theorem construction_soft_fail:
  assumes "store = applyClientOptions options (defaultClientStore a)"
    and "\<not> initTableDisabled store"
    and "fst (Exec (adapter store) (clientCreateTableSQL (tableName store)) [] (db w)) = Some e"
    and "tstore = applyTokenOptions toptions (defaultTokenStore k ta)"
    and "\<not> tsInitTableDisabled tstore"
    and "fst (Exec (tsAdapter tstore) (createTableSQL k (tsTableName tstore)) [] (db tw))
           = Some te"
  shows "fst (NewClientStore a options w) = (store, Some e)
     \<and> snd (fst (NewTokenStore k ta toptions tw)) = Some te
     \<and> fst (fst (NewTokenStore k ta toptions tw))
         = (if gcDisabled tstore then tstore else tstore\<lparr>scheduler := Running\<rparr>)"
  using assms
  by (auto simp: NewClientStore_def NewTokenStore_def initTable_def TokenStore_initTable_def
      adapter_Exec_def Let_def split: prod.splits)

theorem construction_soft_fail_witness:
  "fst (NewClientStore (mockAdapterOf (Some execAlwaysFails) None zeroItem) []
          (newWorld newMockAdapter))
     = (defaultClientStore (mockAdapterOf (Some execAlwaysFails) None zeroItem),
        Some (Err ''exec failed''))
   \<and> snd (fst (NewTokenStore sampleConsts
          (mockAdapterOf (Some execAlwaysFails) None zeroTokenItem) []
          (newWorld newMockAdapter))) = Some (Err ''exec failed'')"
proof -
  let ?a = "mockAdapterOf (Some execAlwaysFails) None zeroItem"
  let ?ta = "mockAdapterOf (Some execAlwaysFails) None zeroTokenItem"
  let ?w = "newWorld newMockAdapter"
  have 1: "defaultClientStore ?a = applyClientOptions [] (defaultClientStore ?a)"
    by (simp add: applyClientOptions_def)
  have 2: "\<not> initTableDisabled (defaultClientStore ?a)"
    by (simp add: defaultClientStore_def)
  have 3: "fst (Exec (adapter (defaultClientStore ?a))
             (clientCreateTableSQL (tableName (defaultClientStore ?a))) [] (db ?w))
           = Some (Err ''exec failed'')"
    by (simp add: defaultClientStore_def mockAdapterOf_def mockAdapter_Exec_def
        execAlwaysFails_def Let_def)
  have 4: "defaultTokenStore sampleConsts ?ta
             = applyTokenOptions [] (defaultTokenStore sampleConsts ?ta)"
    by (simp add: applyTokenOptions_def)
  have 5: "\<not> tsInitTableDisabled (defaultTokenStore sampleConsts ?ta)"
    by (simp add: defaultTokenStore_def)
  have 6: "fst (Exec (tsAdapter (defaultTokenStore sampleConsts ?ta))
             (createTableSQL sampleConsts (tsTableName (defaultTokenStore sampleConsts ?ta)))
             [] (db ?w)) = Some (Err ''exec failed'')"
    by (simp add: defaultTokenStore_def mockAdapterOf_def mockAdapter_Exec_def
        execAlwaysFails_def Let_def)
  from construction_soft_fail [OF 1 2 3 4 5 6] show ?thesis by simp
qed

text \<open>
  Claim C4. For a non-empty id for which the adapter's \<open>SelectOne\<close> signals its
  no-rows condition, \<open>GetByID\<close> returns no client together with exactly that
  distinguished error: neither the "no result, no error" answer nor another failure.
\<close>

theorem GetByID_not_found:
  assumes "key \<noteq> []"
    and "fst (SelectOne (adapter s) (clientSelectSQL (tableName s)) [StringArg key] (db w))
           = Inl ErrNoRows"
  shows "fst (GetByID json s key w) = (None, Some ErrNoRows)
     \<and> fst (GetByID json s key w) \<noteq> (None, None)"
  using assms
  by (auto simp: GetByID_def adapter_SelectOne_def split: prod.splits sum.splits)

theorem GetByID_not_found_witness:
  "''c1'' \<noteq> []
   \<and> fst (GetByID lineCodec (tableStore ''clients'') ''c1'' (newWorld (Some [])))
       = (None, Some ErrNoRows)"
proof -
  have 1: "''c1'' \<noteq> []" by simp
  have 2: "fst (SelectOne (adapter (tableStore ''clients''))
             (clientSelectSQL (tableName (tableStore ''clients''))) [StringArg ''c1'']
             (db (newWorld (Some [])))) = Inl ErrNoRows"
    by (simp add: tableStore_def applyClientOptions_def WithClientStoreTableName_def
        defaultClientStore_def clientTableAdapter_def clientTable_SelectOne_def newWorld_def)
  from GetByID_not_found [OF 1 2] show ?thesis by simp
qed

text \<open>
  Claim C5. For a client whose payload serializes, \<open>Create\<close> is exactly one \<open>Exec\<close>
  of the adapter: the insert statement for the store's table carrying id, secret, domain
  and the serialized payload. The adapter's state afterwards is the state that one call
  left, the call history grows by that one entry and by nothing else (no select before
  it, no second attempt), nothing is logged, and the error returned is the one that call
  returned.
\<close>

theorem Create_one_insert:
  assumes "Marshal json info = Inr data"
    and "q = ''INSERT INTO '' @ tableName s
               @ '' (id, secret, domain, data) VALUES ($1, $2, $3, $4)''"
    and "args = [StringArg (GetID info), StringArg (GetSecret info),
                 StringArg (GetDomain info), BytesArg data]"
  shows "Create json s info w =
           (fst (Exec (adapter s) q args (db w)),
            \<lparr>db = snd (Exec (adapter s) q args (db w)),
             calls = calls w @ [ExecCall q args],
             logged = logged w\<rparr>)"
  using assms
  by (simp add: Create_def adapter_Exec_def clientInsertSQL_def split: prod.splits)

theorem Create_one_insert_witness:
  "Marshal lineCodec sampleClient = Inr ''c1|s1|d1|u1''
   \<and> Create lineCodec (defaultClientStore (mockAdapterOf (Some execAlwaysFails) None zeroItem))
        sampleClient (newWorld newMockAdapter)
       = (Some (Err ''exec failed''),
          \<lparr>db = \<lparr>execCalls =
                   [(''INSERT INTO oauth2_clients (id, secret, domain, data) VALUES ($1, $2, $3, $4)'',
                     [StringArg ''c1'', StringArg ''s1'', StringArg ''d1'',
                      BytesArg ''c1|s1|d1|u1''])],
                 selectOneCalls = []\<rparr>,
           calls =
             [ExecCall ''INSERT INTO oauth2_clients (id, secret, domain, data) VALUES ($1, $2, $3, $4)''
                [StringArg ''c1'', StringArg ''s1'', StringArg ''d1'',
                 BytesArg ''c1|s1|d1|u1'']],
           logged = []\<rparr>)
   \<and> Create lineCodec (tableStore ''clients'') sampleClient (newWorld occupiedTable)
       = (Some (Err ''duplicate key value violates unique constraint''),
          \<lparr>db = occupiedTable,
           calls =
             [ExecCall ''INSERT INTO clients (id, secret, domain, data) VALUES ($1, $2, $3, $4)''
                [StringArg ''c1'', StringArg ''s1'', StringArg ''d1'',
                 BytesArg ''c1|s1|d1|u1'']],
           logged = []\<rparr>)"
proof -
  let ?m = "defaultClientStore (mockAdapterOf (Some execAlwaysFails) None zeroItem)"
  let ?args = "[StringArg (GetID sampleClient), StringArg (GetSecret sampleClient),
                StringArg (GetDomain sampleClient), BytesArg ''c1|s1|d1|u1'']"
  have 1: "Marshal lineCodec sampleClient = Inr ''c1|s1|d1|u1''"
    by (simp add: lineCodec_def sampleClient_def fieldSep_def)
  have m: "Exec (adapter ?m)
             (''INSERT INTO '' @ tableName ?m
                @ '' (id, secret, domain, data) VALUES ($1, $2, $3, $4)'') ?args
             (db (newWorld newMockAdapter))
           = (Some (Err ''exec failed''),
              \<lparr>execCalls =
                 [(''INSERT INTO oauth2_clients (id, secret, domain, data) VALUES ($1, $2, $3, $4)'',
                   ?args)],
               selectOneCalls = []\<rparr>)"
    by (simp add: defaultClientStore_def mockAdapterOf_def mockAdapter_Exec_def
        execAlwaysFails_def Let_def newWorld_def newMockAdapter_def)
  have t: "Exec (adapter (tableStore ''clients''))
             (''INSERT INTO '' @ tableName (tableStore ''clients'')
                @ '' (id, secret, domain, data) VALUES ($1, $2, $3, $4)'') ?args
             (db (newWorld occupiedTable))
           = (Some (Err ''duplicate key value violates unique constraint''), occupiedTable)"
    by (simp add: tableStore_def applyClientOptions_def WithClientStoreTableName_def
        defaultClientStore_def clientTableAdapter_def clientTable_Exec_def
        clientInsertSQL_def clientCreateTableSQL_def nl_def occupiedTable_def newWorld_def
        sampleClient_def)
  have n: "tableName ?m = ''oauth2_clients''" "tableName (tableStore ''clients'') = ''clients''"
    by (simp_all add: tableStore_def applyClientOptions_def WithClientStoreTableName_def
        defaultClientStore_def)
  from Create_one_insert [OF 1 refl refl, of ?m "newWorld newMockAdapter"]
    Create_one_insert [OF 1 refl refl, of "tableStore ''clients''" "newWorld occupiedTable"]
    1 m t n
  show ?thesis
    by (simp add: sampleClient_def newWorld_def)
qed

text \<open>
  Claim C6. When table creation is not disabled, construction is exactly one \<open>Exec\<close>
  of the adapter, without arguments: the adapter's state afterwards is the state that one
  call left and the call history grows by that one entry. For the client store the
  statement is the text below, \<open>CREATE TABLE IF NOT EXISTS\<close> for the configured table
  name with the four columns and the primary key; on the reference table it creates an
  absent table, leaves an existing one with its rows, and running it again changes
  nothing. The token store issues, in the same way, its one creation statement for its
  configured table name.
\<close>

theorem NewClientStore_init_statement:
  assumes "store = fold (\<lambda>opt st. opt st) options
             \<lparr>adapter = a, tableName = ''oauth2_clients'',
              logger = StderrLogger ''[OAUTH2-PG-ERROR]'', initTableDisabled = False\<rparr>"
    and "\<not> initTableDisabled store"
    and "sql = [CHR 0x0A] @ ''CREATE TABLE IF NOT EXISTS '' @ tableName store @ '' (''
             @ [CHR 0x0A] @ ''  id     TEXT  NOT NULL,''
             @ [CHR 0x0A] @ ''  secret TEXT  NOT NULL,''
             @ [CHR 0x0A] @ ''  domain TEXT  NOT NULL,''
             @ [CHR 0x0A] @ ''  data   JSONB NOT NULL,''
             @ [CHR 0x0A] @ ''  CONSTRAINT '' @ tableName store @ ''_pkey PRIMARY KEY (id)''
             @ [CHR 0x0A] @ '');'' @ [CHR 0x0A]"
    and "tstore = fold (\<lambda>opt st. opt st) toptions (defaultTokenStore k ta)"
    and "\<not> tsInitTableDisabled tstore"
    and "tsql = createTableSQL k (tsTableName tstore)"
  shows "NewClientStore a options w =
           ((store, fst (Exec (adapter store) sql [] (db w))),
            \<lparr>db = snd (Exec (adapter store) sql [] (db w)),
             calls = calls w @ [ExecCall sql []],
             logged = logged w\<rparr>)
     \<and> clientTable_Exec (tableName store) sql [] None = (None, Some [])
     \<and> clientTable_Exec (tableName store) sql [] (Some rows) = (None, Some rows)
     \<and> clientTable_Exec (tableName store) sql []
          (snd (clientTable_Exec (tableName store) sql [] tb))
         = (None, snd (clientTable_Exec (tableName store) sql [] tb))
     \<and> snd (NewTokenStore k ta toptions tw) =
           \<lparr>db = snd (Exec (tsAdapter tstore) tsql [] (db tw)),
            calls = calls tw @ [ExecCall tsql []],
            logged = logged tw\<rparr>
     \<and> snd (fst (NewTokenStore k ta toptions tw)) = fst (Exec (tsAdapter tstore) tsql [] (db tw))"
proof -
  have sql: "sql = clientCreateTableSQL (tableName store)"
    using assms(3) by (simp add: clientCreateTableSQL_def nl_def)
  have st: "store = applyClientOptions options (defaultClientStore a)"
    using assms(1) by (simp add: applyClientOptions_def defaultClientStore_def)
  have c: "NewClientStore a options w =
           ((store, fst (Exec (adapter store) sql [] (db w))),
            \<lparr>db = snd (Exec (adapter store) sql [] (db w)),
             calls = calls w @ [ExecCall sql []],
             logged = logged w\<rparr>)"
    using assms(2) unfolding st sql
    by (simp add: NewClientStore_def initTable_def adapter_Exec_def Let_def split: prod.splits)
  have i: "clientTable_Exec (tableName store) sql [] tb'
             = (None, case tb' of None \<Rightarrow> Some [] | Some r \<Rightarrow> Some r)" for tb'
    unfolding sql by (simp add: clientTable_Exec_def split: option.splits)
  have t: "snd (NewTokenStore k ta toptions tw) =
           \<lparr>db = snd (Exec (tsAdapter tstore) tsql [] (db tw)),
            calls = calls tw @ [ExecCall tsql []],
            logged = logged tw\<rparr>"
    "snd (fst (NewTokenStore k ta toptions tw)) = fst (Exec (tsAdapter tstore) tsql [] (db tw))"
    using assms(4,5,6)
    by (simp_all add: NewTokenStore_def applyTokenOptions_def TokenStore_initTable_def
        adapter_Exec_def Let_def split: prod.splits)
  show ?thesis
    using c t by (simp add: i split: option.splits)
qed

theorem NewClientStore_init_statement_witness:
  "NewClientStore (mockAdapterOf None None zeroItem) [WithClientStoreTableName ''clients'']
       (newWorld newMockAdapter)
     = ((\<lparr>adapter = mockAdapterOf None None zeroItem, tableName = ''clients'',
          logger = StderrLogger ''[OAUTH2-PG-ERROR]'', initTableDisabled = False\<rparr>, None),
        \<lparr>db = \<lparr>execCalls = [(clientCreateTableSQL ''clients'', [])], selectOneCalls = []\<rparr>,
         calls = [ExecCall (clientCreateTableSQL ''clients'') []],
         logged = []\<rparr>)
   \<and> take 27 (drop 1 (clientCreateTableSQL ''clients'')) = ''CREATE TABLE IF NOT EXISTS ''
   \<and> snd (NewTokenStore sampleConsts (mockAdapterOf None None zeroTokenItem)
        [WithTokenStoreGCDisabled] (newWorld newMockAdapter))
     = \<lparr>db = \<lparr>execCalls = [(''CREATE TABLE IF NOT EXISTS oauth2_tokens'', [])],
               selectOneCalls = []\<rparr>,
        calls = [ExecCall ''CREATE TABLE IF NOT EXISTS oauth2_tokens'' []],
        logged = []\<rparr>"
proof -
  let ?a = "mockAdapterOf None None zeroItem"
  let ?ta = "mockAdapterOf None None zeroTokenItem"
  let ?st = "\<lparr>adapter = ?a, tableName = ''clients'',
          logger = StderrLogger ''[OAUTH2-PG-ERROR]'', initTableDisabled = False\<rparr>"
  let ?ts = "(defaultTokenStore sampleConsts ?ta)\<lparr>gcDisabled := True\<rparr>"
  let ?w = "newWorld newMockAdapter"
  have 1: "?st = fold (\<lambda>opt st. opt st) [WithClientStoreTableName ''clients'']
             \<lparr>adapter = ?a, tableName = ''oauth2_clients'',
              logger = StderrLogger ''[OAUTH2-PG-ERROR]'', initTableDisabled = False\<rparr>"
    by (simp add: WithClientStoreTableName_def)
  have 2: "\<not> initTableDisabled ?st" by simp
  have 3: "clientCreateTableSQL ''clients'' =
             [CHR 0x0A] @ ''CREATE TABLE IF NOT EXISTS '' @ tableName ?st @ '' (''
             @ [CHR 0x0A] @ ''  id     TEXT  NOT NULL,''
             @ [CHR 0x0A] @ ''  secret TEXT  NOT NULL,''
             @ [CHR 0x0A] @ ''  domain TEXT  NOT NULL,''
             @ [CHR 0x0A] @ ''  data   JSONB NOT NULL,''
             @ [CHR 0x0A] @ ''  CONSTRAINT '' @ tableName ?st @ ''_pkey PRIMARY KEY (id)''
             @ [CHR 0x0A] @ '');'' @ [CHR 0x0A]"
    by (simp add: clientCreateTableSQL_def nl_def)
  have 4: "?ts = fold (\<lambda>opt st. opt st) [WithTokenStoreGCDisabled]
             (defaultTokenStore sampleConsts ?ta)"
    by (simp add: WithTokenStoreGCDisabled_def)
  have 5: "\<not> tsInitTableDisabled ?ts" by (simp add: defaultTokenStore_def)
  have 6: "''CREATE TABLE IF NOT EXISTS oauth2_tokens''
             = createTableSQL sampleConsts (tsTableName ?ts)"
    by (simp add: defaultTokenStore_def sampleConsts_def)
  have m: "Exec (adapter ?st) (clientCreateTableSQL ''clients'') [] (db ?w)
             = (None, \<lparr>execCalls = [(clientCreateTableSQL ''clients'', [])],
                       selectOneCalls = []\<rparr>)"
    by (simp add: mockAdapterOf_def mockAdapter_Exec_def Let_def newWorld_def
        newMockAdapter_def)
  have tm: "Exec (tsAdapter ?ts) ''CREATE TABLE IF NOT EXISTS oauth2_tokens'' [] (db ?w)
             = (None, \<lparr>execCalls = [(''CREATE TABLE IF NOT EXISTS oauth2_tokens'', [])],
                       selectOneCalls = []\<rparr>)"
    by (simp add: defaultTokenStore_def mockAdapterOf_def mockAdapter_Exec_def Let_def
        newWorld_def newMockAdapter_def)
  have p: "take 27 (drop 1 (clientCreateTableSQL ''clients'')) = ''CREATE TABLE IF NOT EXISTS ''"
    by (simp add: clientCreateTableSQL_def nl_def)
  from NewClientStore_init_statement [OF 1 2 3 4 5 6, where w = ?w and tw = ?w] m tm p
  show ?thesis
    by (simp add: newWorld_def)
qed

text \<open>
  Claim C7. When the options leave table creation disabled, construction returns the
  configured store with no error and the world untouched: no call reaches the adapter.
\<close>

theorem NewClientStore_init_disabled:
  assumes "initTableDisabled (applyClientOptions options (defaultClientStore a))"
  shows "NewClientStore a options w
           = ((applyClientOptions options (defaultClientStore a), None), w)"
  using assms by (simp add: NewClientStore_def Let_def)

theorem NewClientStore_init_disabled_witness:
  "initTableDisabled (applyClientOptions [WithClientStoreInitTableDisabled]
     (defaultClientStore (mockAdapterOf (Some execAlwaysFails) None zeroItem)))
   \<and> snd (fst (NewClientStore (mockAdapterOf (Some execAlwaysFails) None zeroItem)
        [WithClientStoreInitTableDisabled] (newWorld newMockAdapter))) = None
   \<and> calls (snd (NewClientStore (mockAdapterOf (Some execAlwaysFails) None zeroItem)
        [WithClientStoreInitTableDisabled] (newWorld newMockAdapter))) = []
   \<and> execCalls (db (snd (NewClientStore (mockAdapterOf (Some execAlwaysFails) None zeroItem)
        [WithClientStoreInitTableDisabled] (newWorld newMockAdapter)))) = []"
proof -
  let ?a = "mockAdapterOf (Some execAlwaysFails) None zeroItem"
  have 1: "initTableDisabled (applyClientOptions [WithClientStoreInitTableDisabled]
             (defaultClientStore ?a))"
    by (simp add: applyClientOptions_def WithClientStoreInitTableDisabled_def)
  from NewClientStore_init_disabled [OF 1, of "newWorld newMockAdapter"] 1 show ?thesis
    by (simp add: newWorld_def newMockAdapter_def)
qed

text \<open>
  Claim C10. For a client whose payload fails to serialize, \<open>Create\<close> returns the
  serialization error and leaves the world untouched: no call reaches the adapter and
  the stored state is what it was.
\<close>

theorem Create_marshal_failure:
  assumes "Marshal json info = Inl e"
  shows "Create json s info w = (Some e, w)"
  using assms by (simp add: Create_def)

theorem Create_marshal_failure_witness:
  "Marshal lineCodec (sampleClient\<lparr>GetSecret := ''a|b''\<rparr>) = Inl (Err ''unsupported value'')
   \<and> Create lineCodec (tableStore ''clients'') (sampleClient\<lparr>GetSecret := ''a|b''\<rparr>)
        (newWorld (Some []))
       = (Some (Err ''unsupported value''), newWorld (Some []))"
proof -
  have 1: "Marshal lineCodec (sampleClient\<lparr>GetSecret := ''a|b''\<rparr>)
             = Inl (Err ''unsupported value'')"
    by (simp add: lineCodec_def sampleClient_def fieldSep_def)
  from Create_marshal_failure [OF 1] 1 show ?thesis by simp
qed

text \<open>
  Claim C1, as stated, fails when the id is already taken: the table holds a client
  \<open>c1\<close> with secret \<open>old\<close>; \<open>Create\<close> of the scenario's client \<open>c1\<close>, whose payload
  serializes, is refused by the primary key, and \<open>GetByID\<close> returns the old record.
\<close>

theorem roundtrip_duplicate_id:
  "GetID sampleClient \<noteq> []
   \<and> Marshal lineCodec sampleClient = Inr ''c1|s1|d1|u1''
   \<and> fst (Create lineCodec (tableStore ''clients'') sampleClient (newWorld occupiedTable))
       = Some (Err ''duplicate key value violates unique constraint'')
   \<and> fst (GetByID lineCodec (tableStore ''clients'') (GetID sampleClient)
            (snd (Create lineCodec (tableStore ''clients'') sampleClient (newWorld occupiedTable))))
       = (Some \<lparr>GetID = ''c1'', GetSecret = ''old'', GetDomain = ''d0'', GetUserID = ''u0''\<rparr>, None)
   \<and> GetSecret sampleClient = ''s1''"
  by (simp add: lineCodec_def sampleClient_def fieldSep_def tableStore_def applyClientOptions_def
      WithClientStoreTableName_def defaultClientStore_def Create_def GetByID_def adapter_Exec_def
      adapter_SelectOne_def clientTableAdapter_def clientTable_Exec_def clientTable_SelectOne_def
      clientInsert_neq_create newWorld_def occupiedTable_def toClientInfo_def)

text \<open>
  Claim C1, amended. On a store whose adapter is the table with the primary key on
  \<open>id\<close>, for a client with a non-empty id whose payload serializes and deserializes
  back to the client: if \<open>Create\<close> returns no error, then \<open>GetByID\<close> with that id,
  called next, returns that client (id, secret, domain and user id) and no error.
\<close>

theorem Create_GetByID_roundtrip:
  assumes "GetID c \<noteq> []"
    and "Marshal json c = Inr data"
    and "Unmarshal json data = (c, None)"
    and "adapter s = clientTableAdapter (tableName s)"
    and "Create json s c w = (None, w1)"
  shows "fst (GetByID json s (GetID c) w1) = (Some c, None)"
proof -
  let ?t = "tableName s"
  let ?args = "[StringArg (GetID c), StringArg (GetSecret c), StringArg (GetDomain c),
                BytesArg data]"
  let ?row = "\<lparr>ID = GetID c, Secret = GetSecret c, Domain = GetDomain c, Data = data\<rparr>"
  obtain e d where ex: "clientTable_Exec ?t (clientInsertSQL ?t) ?args (db w) = (e, d)"
    by (cases "clientTable_Exec ?t (clientInsertSQL ?t) ?args (db w)")
  from assms(2,4,5) ex have e: "e = None" and w1: "db w1 = d"
    by (auto simp: Create_def adapter_Exec_def clientTableAdapter_def)
  from clientTable_insert_ok [OF ex [unfolded e]] obtain rows where
    rows: "GetID c \<notin> set (map ID rows)" "d = Some (rows @ [?row])"
    by blast
  have "find (\<lambda>r. ID r = GetID c) (rows @ [?row]) = Some ?row"
    using rows(1) by (intro find_append_last) force+
  with assms(1,3,4) w1 rows(2) show ?thesis
    by (simp add: GetByID_def adapter_SelectOne_def clientTableAdapter_def
        clientTable_SelectOne_def toClientInfo_def)
qed

theorem Create_GetByID_roundtrip_witness:
  "GetID sampleClient \<noteq> []
   \<and> Marshal lineCodec sampleClient = Inr ''c1|s1|d1|u1''
   \<and> Unmarshal lineCodec ''c1|s1|d1|u1'' = (sampleClient, None)
   \<and> fst (Create lineCodec (tableStore ''clients'') sampleClient (newWorld (Some []))) = None
   \<and> fst (GetByID lineCodec (tableStore ''clients'') ''c1''
            (snd (Create lineCodec (tableStore ''clients'') sampleClient (newWorld (Some [])))))
       = (Some sampleClient, None)"
proof -
  have 1: "GetID sampleClient \<noteq> []" by (simp add: sampleClient_def)
  have 2: "Marshal lineCodec sampleClient = Inr ''c1|s1|d1|u1''"
    by (simp add: lineCodec_def sampleClient_def fieldSep_def)
  have 3: "Unmarshal lineCodec ''c1|s1|d1|u1'' = (sampleClient, None)"
    by (simp add: lineCodec_def sampleClient_def fieldSep_def)
  have 4: "adapter (tableStore ''clients'')
             = clientTableAdapter (tableName (tableStore ''clients''))"
    by (simp add: tableStore_def applyClientOptions_def WithClientStoreTableName_def
        defaultClientStore_def)
  have 5: "fst (Create lineCodec (tableStore ''clients'') sampleClient (newWorld (Some [])))
             = None"
    by (simp add: Create_def 2 4 adapter_Exec_def clientTableAdapter_def clientTable_Exec_def
        clientInsert_neq_create newWorld_def)
  then have 6: "Create lineCodec (tableStore ''clients'') sampleClient (newWorld (Some []))
      = (None, snd (Create lineCodec (tableStore ''clients'') sampleClient (newWorld (Some []))))"
    by (metis prod.collapse)
  from Create_GetByID_roundtrip [OF 1 2 3 4 6] 1 2 3 5 show ?thesis
    by (simp add: sampleClient_def)
qed

section \<open>Properties of the token store\<close>

lemma find_cases_code:
  assumes "list_all Q rows" and "Q row" and "P row"
  shows "\<exists>r. find P (rows @ [row]) = Some r \<and> P r \<and> Q r"
  using assms by (induction rows) auto

lemma tokenTable_create_get:
  assumes ad: "tsAdapter s = tokenTableAdapter k (tsTableName s)"
    and m: "Marshal json t = Inr data"
  shows "fst (TokenStore_Create k json s t w) = None"
    and "db (snd (TokenStore_Create k json s t w)) =
           db w @ [\<lparr>TokenID = int (length (db w)),
              Code = GetCode t, CodeCreatedAt = GetCodeCreateAt t,
              CodeExpiresIn = GetCodeExpiresIn t,
              Access = GetAccess t, AccessCreatedAt = GetAccessCreateAt t,
              AccessExpiresIn = GetAccessExpiresIn t,
              Refresh = GetRefresh t, RefreshCreatedAt = GetRefreshCreateAt t,
              RefreshExpiresIn = GetRefreshExpiresIn t, TokenData = data\<rparr>]"
  using ad m
  by (simp_all add: TokenStore_Create_def adapter_Exec_def tokenTableAdapter_def
      tokenTable_Exec_def)

lemma tokenTable_get_consistent:
  assumes ad: "tsAdapter s = tokenTableAdapter k (tsTableName s)"
    and key: "code \<noteq> []"
    and found: "find (\<lambda>r. Code r = code) (db w) = Some r"
    and ok: "snd (Unmarshal json (TokenData r)) = None"
  shows "fst (GetByCode k json s code w) = (Some (fst (Unmarshal json (TokenData r))), None)"
    and "db (snd (GetByCode k json s code w)) = db w"
  using ad key found ok
  by (auto simp: GetByCode_def getBy_def adapter_SelectOne_def tokenTableAdapter_def
      tokenTable_SelectOne_def selectBy_def toTokenInfo_def split: prod.splits)

lemma tokenTable_get_none:
  assumes ad: "tsAdapter s = tokenTableAdapter k (tsTableName s)"
    and key: "code \<noteq> []"
    and none: "find (\<lambda>r. Code r = code) (db w) = None"
  shows "fst (GetByCode k json s code w) = (None, Some ErrNoRows)"
  using ad key none
  by (simp add: GetByCode_def getBy_def adapter_SelectOne_def tokenTableAdapter_def
      tokenTable_SelectOne_def selectBy_def)

lemma tokenTable_remove:
  assumes ad: "tsAdapter s = tokenTableAdapter k (tsTableName s)"
    and ne: "deleteByCodeSQL k (tsTableName s) \<noteq> insertSQL k (tsTableName s)"
  shows "fst (RemoveByCode k s code w) = None"
    and "db (snd (RemoveByCode k s code w)) = filter (\<lambda>r. Code r \<noteq> code) (db w)"
  using ad ne
  by (simp_all add: RemoveByCode_def remove_def adapter_Exec_def tokenTableAdapter_def
      tokenTable_Exec_def)

text \<open>
  Claim C8. On the token store over a table whose rows are consistent, for a token with
  a non-empty code whose payload serializes and deserializes back to it: \<open>Create\<close>
  succeeds, \<open>GetByCode\<close> with that code then returns a record whose code is that code,
  \<open>RemoveByCode\<close> succeeds, and \<open>GetByCode\<close> with the same code then returns the
  no-rows error. The other two sub-tokens may be empty or not.
\<close>

theorem token_code_lifecycle:
  assumes key: "code \<noteq> []"
    and code: "GetCode t = code"
    and m: "Marshal json t = Inr data"
    and u: "Unmarshal json data = (t, None)"
    and ad: "tsAdapter s = tokenTableAdapter k (tsTableName s)"
    and ne: "deleteByCodeSQL k (tsTableName s) \<noteq> insertSQL k (tsTableName s)"
    and cons: "codeConsistent json (db w)"
    and c: "TokenStore_Create k json s t w = (e0, w1)"
    and g1: "GetByCode k json s code w1 = (r1, w2)"
    and rm: "RemoveByCode k s code w2 = (e2, w3)"
    and g2: "GetByCode k json s code w3 = (r3, w4)"
  shows "e0 = None \<and> (\<exists>t'. r1 = (Some t', None) \<and> GetCode t' = code)
     \<and> e2 = None \<and> r3 = (None, Some ErrNoRows)"
proof -
  let ?Q = "\<lambda>r. snd (Unmarshal json (TokenData r)) = None
                 \<and> GetCode (fst (Unmarshal json (TokenData r))) = Code r"
  let ?row = "\<lparr>TokenID = int (length (db w)),
              Code = GetCode t, CodeCreatedAt = GetCodeCreateAt t,
              CodeExpiresIn = GetCodeExpiresIn t,
              Access = GetAccess t, AccessCreatedAt = GetAccessCreateAt t,
              AccessExpiresIn = GetAccessExpiresIn t,
              Refresh = GetRefresh t, RefreshCreatedAt = GetRefreshCreateAt t,
              RefreshExpiresIn = GetRefreshExpiresIn t, TokenData = data\<rparr>"
  from tokenTable_create_get [OF ad m, where w = w] c
  have e0: "e0 = None" and w1: "db w1 = db w @ [?row]" by simp_all
  have "list_all ?Q (db w)" using cons by (simp add: codeConsistent_def)
  moreover have "?Q ?row" using u by simp
  moreover have "Code ?row = code" using code by simp
  ultimately obtain r where r: "find (\<lambda>r. Code r = code) (db w @ [?row]) = Some r"
    "Code r = code" "?Q r"
    using find_cases_code [of ?Q "db w" ?row "\<lambda>r. Code r = code"] by blast
  from tokenTable_get_consistent [OF ad key, where w = w1 and r = r and json = json] r w1 g1
  have r1: "r1 = (Some (fst (Unmarshal json (TokenData r))), None)" and w2: "db w2 = db w1"
    by simp_all
  from tokenTable_remove [OF ad ne, where code = code and w = w2] rm
  have e2: "e2 = None" and w3: "db w3 = filter (\<lambda>r. Code r \<noteq> code) (db w2)"
    by simp_all
  have "find (\<lambda>r. Code r = code) (db w3) = None"
    by (simp add: w3 find_None_iff)
  from tokenTable_get_none [OF ad key this, where json = json] g2
  have r3: "r3 = (None, Some ErrNoRows)" by simp
  from e0 r1 r(2,3) e2 r3 show ?thesis by simp
qed

theorem token_code_lifecycle_witness:
  "''code1'' \<noteq> []
   \<and> codeConsistent tokenLineCodec olderRows
   \<and> fst (TokenStore_Create sampleConsts tokenLineCodec tokenTableStore sampleToken
        (newWorld olderRows)) = None
   \<and> map_option GetCode (fst (fst (GetByCode sampleConsts tokenLineCodec tokenTableStore ''code1''
        (snd (TokenStore_Create sampleConsts tokenLineCodec tokenTableStore sampleToken
           (newWorld olderRows)))))) = Some ''code1''
   \<and> fst (GetByCode sampleConsts tokenLineCodec tokenTableStore ''code1''
        (snd (RemoveByCode sampleConsts tokenTableStore ''code1''
          (snd (GetByCode sampleConsts tokenLineCodec tokenTableStore ''code1''
            (snd (TokenStore_Create sampleConsts tokenLineCodec tokenTableStore sampleToken
               (newWorld olderRows))))))))
       = (None, Some ErrNoRows)"
proof -
  let ?k = sampleConsts and ?j = tokenLineCodec and ?s = tokenTableStore
  let ?w = "newWorld olderRows"
  let ?c = "TokenStore_Create ?k ?j ?s sampleToken ?w"
  let ?g1 = "GetByCode ?k ?j ?s ''code1'' (snd ?c)"
  let ?rm = "RemoveByCode ?k ?s ''code1'' (snd ?g1)"
  let ?g2 = "GetByCode ?k ?j ?s ''code1'' (snd ?rm)"
  have 1: "''code1'' \<noteq> []" by simp
  have 2: "GetCode sampleToken = ''code1''" by (simp add: sampleToken_def)
  have 3: "Marshal ?j sampleToken = Inr ''code1||''"
    by (simp add: tokenLineCodec_def sampleToken_def zeroToken_def fieldSep_def)
  have 4: "Unmarshal ?j ''code1||'' = (sampleToken, None)"
    by (simp add: tokenLineCodec_def sampleToken_def zeroToken_def fieldSep_def)
  have 5: "tsAdapter ?s = tokenTableAdapter ?k (tsTableName ?s)"
    by (simp add: tokenTableStore_def defaultTokenStore_def sampleConsts_def)
  have 6: "deleteByCodeSQL ?k (tsTableName ?s) \<noteq> insertSQL ?k (tsTableName ?s)"
    by (simp add: sampleConsts_def)
  have 7: "codeConsistent ?j (db ?w)"
    by (simp add: codeConsistent_def newWorld_def olderRows_def zeroTokenItem_def
        tokenLineCodec_def fieldSep_def)
  have c: "?c = (fst ?c, snd ?c)" and g1: "?g1 = (fst ?g1, snd ?g1)"
    and rm: "?rm = (fst ?rm, snd ?rm)" and g2: "?g2 = (fst ?g2, snd ?g2)"
    by simp_all
  from token_code_lifecycle [OF 1 2 3 4 5 6 7 c g1 rm g2] 7 show ?thesis
    by (auto simp: newWorld_def)
qed

lemma clean_world:
  "calls (clean k s w) = calls w @ [ExecCall (deleteExpiredSQL k (tsTableName s)) []]"
  "db (clean k s w) = snd (Exec (tsAdapter s) (deleteExpiredSQL k (tsTableName s)) [] (db w))"
  by (simp_all add: clean_def adapter_Exec_def Printf_def split: prod.splits option.splits)

lemma clean_logged:
  "fst (Exec (tsAdapter s) (deleteExpiredSQL k (tsTableName s)) [] (db w)) = Some e \<Longrightarrow>
     logged (clean k s w) = logged w @ [(tsLogger s, gcErrorFormat k, [e])]"
  "fst (Exec (tsAdapter s) (deleteExpiredSQL k (tsTableName s)) [] (db w)) = None \<Longrightarrow>
     logged (clean k s w) = logged w"
  by (auto simp: clean_def adapter_Exec_def Printf_def split: prod.splits option.splits)

lemma gc_calls:
  "scheduler s = Running \<Longrightarrow>
     calls (gc k s n w) = calls w @ replicate n (ExecCall (deleteExpiredSQL k (tsTableName s)) [])"
proof (induction n arbitrary: w)
  case 0
  then show ?case by simp
next
  case (Suc n)
  then show ?case by (simp add: clean_world(1) replicate_app_Cons_same)
qed

lemma results_ignore_log:
  "fst (TokenStore_Create k json s t (Printf l f v w)) = fst (TokenStore_Create k json s t w)"
  "fst (getBy json s q key (Printf l f v w)) = fst (getBy json s q key w)"
  "fst (remove s q key (Printf l f v w)) = fst (remove s q key w)"
  by (simp_all add: TokenStore_Create_def getBy_def remove_def adapter_Exec_def
      adapter_SelectOne_def Printf_def split: prod.splits sum.splits)

text \<open>
  Claim C9. A GC pass issues its one delete statement and returns nothing. When the
  statement fails, exactly one entry, carrying the error, goes to the store's configured
  logger, and nothing else changes beyond what the adapter did; when it succeeds nothing
  is logged. A running loop makes one pass per tick whatever the passes return, for any
  number of ticks. And a log entry has no influence on what \<open>Create\<close>, the lookups and
  the removals return: the failure is visible to the logger only.
\<close>

theorem gc_failure_isolated:
  "calls (clean k s w) = calls w @ [ExecCall (deleteExpiredSQL k (tsTableName s)) []]
   \<and> db (clean k s w) = snd (Exec (tsAdapter s) (deleteExpiredSQL k (tsTableName s)) [] (db w))
   \<and> (fst (Exec (tsAdapter s) (deleteExpiredSQL k (tsTableName s)) [] (db w)) = Some e \<longrightarrow>
        logged (clean k s w) = logged w @ [(tsLogger s, gcErrorFormat k, [e])])
   \<and> (fst (Exec (tsAdapter s) (deleteExpiredSQL k (tsTableName s)) [] (db w)) = None \<longrightarrow>
        logged (clean k s w) = logged w)
   \<and> (scheduler s = Running \<longrightarrow>
        calls (gc k s n w)
          = calls w @ replicate n (ExecCall (deleteExpiredSQL k (tsTableName s)) []))
   \<and> fst (TokenStore_Create k json s t (Printf l f v w)) = fst (TokenStore_Create k json s t w)
   \<and> fst (GetByCode k json s key (Printf l f v w)) = fst (GetByCode k json s key w)
   \<and> fst (GetByAccess k json s key (Printf l f v w)) = fst (GetByAccess k json s key w)
   \<and> fst (GetByRefresh k json s key (Printf l f v w)) = fst (GetByRefresh k json s key w)
   \<and> fst (RemoveByCode k s key (Printf l f v w)) = fst (RemoveByCode k s key w)
   \<and> fst (RemoveByAccess k s key (Printf l f v w)) = fst (RemoveByAccess k s key w)
   \<and> fst (RemoveByRefresh k s key (Printf l f v w)) = fst (RemoveByRefresh k s key w)"
  by (simp add: clean_world clean_logged gc_calls results_ignore_log GetByCode_def GetByAccess_def
      GetByRefresh_def RemoveByCode_def RemoveByAccess_def RemoveByRefresh_def)

theorem gc_failure_isolated_witness:
  "scheduler gcStore = Running
   \<and> fst (Exec (tsAdapter gcStore) (deleteExpiredSQL sampleConsts (tsTableName gcStore)) []
        (db (newWorld newMockAdapter))) = Some (Err ''exec failed'')
   \<and> logged (clean sampleConsts gcStore (newWorld newMockAdapter))
       = [(SinkLogger 0, ''gc: %v'', [Err ''exec failed''])]
   \<and> calls (gc sampleConsts gcStore 3 (newWorld newMockAdapter))
       = replicate 3 (ExecCall ''DELETE FROM oauth2_tokens WHERE expired'' [])
   \<and> length (logged (gc sampleConsts gcStore 3 (newWorld newMockAdapter))) = 3"
proof -
  let ?w = "newWorld newMockAdapter"
  have s: "gcStore = \<lparr>tsAdapter = mockAdapterOf (Some execAlwaysFails) None zeroTokenItem,
      tsTableName = ''oauth2_tokens'', tsLogger = SinkLogger 0, gcDisabled = False,
      gcInterval = 600, tsInitTableDisabled = True, scheduler = Running\<rparr>"
    by (simp add: gcStore_def NewTokenStore_def applyTokenOptions_def defaultTokenStore_def
        WithTokenStoreInitTableDisabled_def WithTokenStoreLogger_def sampleConsts_def Let_def)
  have 1: "scheduler gcStore = Running" by (simp add: s)
  have 2: "fst (Exec (tsAdapter gcStore) (deleteExpiredSQL sampleConsts (tsTableName gcStore)) []
        (db ?w)) = Some (Err ''exec failed'')"
    by (simp add: s mockAdapterOf_def mockAdapter_Exec_def execAlwaysFails_def Let_def)
  have 3: "length (logged (gc sampleConsts gcStore 3 ?w)) = 3"
    by (simp add: numeral_3_eq_3 s clean_def adapter_Exec_def Printf_def mockAdapterOf_def
        mockAdapter_Exec_def execAlwaysFails_def Let_def newWorld_def)
  from gc_failure_isolated [where k = sampleConsts and s = gcStore and w = ?w
      and e = "Err ''exec failed''" and n = 3] 1 2 3
  show ?thesis
    by (simp add: s sampleConsts_def newWorld_def)
qed

end
